theory Spec2Isabelle
  imports Main "HOL-Library.Sublist"
begin

section \<open>Python values used by the health check\<close>

text \<open>
  The program is one Python module: it fetches a license object, an inventory array and a
  metrics text, extracts three metric families from the text with a regular expression, and
  prints one JSON report. An exception anywhere inside \<open>main\<close> is caught by its
  \<open>except Exception\<close> clause, which only logs; so every raise of the source is a value
  \<open>Inl e\<close> here, and \<open>main\<close> turns it into "nothing printed".
\<close>

datatype error =
    ValueError | TypeError | KeyError string | AttributeError
  | OverflowError | ZeroDivisionError | FetchError

subsection \<open>Floats\<close>

text \<open>
  A Python float is an IEEE binary64 value. A finite one is \<open>m * 2 ^ e\<close> for integers
  \<open>m\<close> and \<open>e\<close>; \<open>Finite m e\<close> keeps it in lowest terms (\<open>m\<close> odd, or \<open>m = 0\<close> and
  \<open>e = 0\<close>), so equal values are equal terms. Values are kept up to Python's \<open>==\<close>: the two
  zeros are one value.
\<close>

datatype pyfloat = Finite int int | PInf | NInf | NaN

function lowest :: "int \<Rightarrow> int \<Rightarrow> int \<times> int" where
  "lowest m e = (if m = 0 then (0, 0) else if even m then lowest (m div 2) (e + 1) else (m, e))"
  by pat_completeness auto
termination
  by (relation "measure (\<lambda>(m, e). nat \<bar>m\<bar>)") auto

declare lowest.simps [simp del]

definition finite_of :: "int \<Rightarrow> int \<Rightarrow> pyfloat" where
  "finite_of m e = (case lowest m e of (m', e') \<Rightarrow> Finite m' e')"

text \<open>The number of binary digits of a natural number (Python's \<open>int.bit_length\<close>).\<close>

function bit_length :: "nat \<Rightarrow> nat" where
  "bit_length n = (if n = 0 then 0 else Suc (bit_length (n div 2)))"
  by pat_completeness auto
termination
  by (relation "measure id") auto

declare bit_length.simps [simp del]

definition scale2 :: "nat \<Rightarrow> int \<Rightarrow> nat" where
  \<comment> \<open>\<open>n * 2 ^ k\<close> for \<open>k \<ge> 0\<close>, and \<open>n\<close> itself for negative \<open>k\<close>\<close>
  "scale2 n k = (if 0 \<le> k then n * 2 ^ nat k else n)"

definition floor_log2 :: "nat \<Rightarrow> nat \<Rightarrow> int" where
  \<comment> \<open>\<open>\<lfloor>log\<^sub>2 (n / d)\<rfloor>\<close> for positive \<open>n\<close> and \<open>d\<close>\<close>
  "floor_log2 n d =
     (let k = int (bit_length n) - int (bit_length d)
      in if scale2 d k \<le> scale2 n (- k) then k else k - 1)"

definition half_even :: "nat \<Rightarrow> nat \<Rightarrow> nat" where
  \<comment> \<open>\<open>n / d\<close> rounded to the nearest integer, a tie to the even one\<close>
  "half_even n d =
     (let q = n div d; r = n mod d
      in if 2 * r < d then q else if d < 2 * r then q + 1 else if even q then q else q + 1)"

definition round64 :: "bool \<Rightarrow> nat \<Rightarrow> nat \<Rightarrow> int \<Rightarrow> pyfloat" where
  \<comment> \<open>the binary64 value nearest to \<open>\<plusminus> n / d * 2 ^ x\<close> (round to nearest, ties to even:
      53 significant bits, least exponent -1022, overflow to infinity)\<close>
  "round64 neg n d x =
     (if n = 0 \<or> d = 0 then Finite 0 0
      else
        let e = max (floor_log2 n d + x) (- 1022);
            s = x + 52 - e;
            N = half_even (scale2 n s) (scale2 d (- s))
        in if 1024 \<le> e \<or> (e = 1023 \<and> N = 2 ^ 53) then (if neg then NInf else PInf)
           else finite_of ((if neg then - 1 else 1) * int N) (e - 52))"

text \<open>Float arithmetic: the exact result, rounded once.\<close>

fun fneg :: "pyfloat \<Rightarrow> pyfloat" where
  "fneg (Finite m e) = Finite (- m) e"
| "fneg PInf = NInf"
| "fneg NInf = PInf"
| "fneg NaN = NaN"

fun is_neg :: "pyfloat \<Rightarrow> bool" where
  "is_neg (Finite m e) = (m < 0)"
| "is_neg NInf = True"
| "is_neg _ = False"

fun is_inf :: "pyfloat \<Rightarrow> bool" where
  "is_inf PInf = True"
| "is_inf NInf = True"
| "is_inf _ = False"

definition signed_inf :: "bool \<Rightarrow> pyfloat" where
  "signed_inf neg = (if neg then NInf else PInf)"

fun fmul :: "pyfloat \<Rightarrow> pyfloat \<Rightarrow> pyfloat" where
  "fmul NaN _ = NaN"
| "fmul _ NaN = NaN"
| "fmul (Finite m1 e1) (Finite m2 e2) =
     round64 ((m1 < 0) \<noteq> (m2 < 0)) (nat \<bar>m1 * m2\<bar>) 1 (e1 + e2)"
| "fmul (Finite m e) y = (if m = 0 then NaN else signed_inf ((m < 0) \<noteq> is_neg y))"
| "fmul x (Finite m e) = (if m = 0 then NaN else signed_inf (is_neg x \<noteq> (m < 0)))"
| "fmul x y = signed_inf (is_neg x \<noteq> is_neg y)"

text \<open>
  Python's \<open>/\<close> on two floats raises \<open>ZeroDivisionError\<close> for a zero divisor and follows
  IEEE 754 otherwise.
\<close>

fun fdiv :: "pyfloat \<Rightarrow> pyfloat \<Rightarrow> error + pyfloat" where
  "fdiv x (Finite m2 e2) =
     (if m2 = 0 then Inl ZeroDivisionError
      else case x of
          Finite m1 e1 \<Rightarrow> Inr (round64 ((m1 < 0) \<noteq> (m2 < 0)) (nat \<bar>m1\<bar>) (nat \<bar>m2\<bar>) (e1 - e2))
        | NaN \<Rightarrow> Inr NaN
        | _ \<Rightarrow> Inr (signed_inf (is_neg x \<noteq> (m2 < 0))))"
| "fdiv x NaN = Inr NaN"
| "fdiv (Finite m1 e1) y = Inr (Finite 0 0)"
| "fdiv x y = Inr NaN"

fun fadd :: "pyfloat \<Rightarrow> pyfloat \<Rightarrow> pyfloat" where
  "fadd NaN _ = NaN"
| "fadd _ NaN = NaN"
| "fadd (Finite m1 e1) (Finite m2 e2) =
     (let e = min e1 e2; m = m1 * 2 ^ nat (e1 - e) + m2 * 2 ^ nat (e2 - e)
      in round64 (m < 0) (nat \<bar>m\<bar>) 1 e)"
| "fadd (Finite m e) y = y"
| "fadd x (Finite m e) = x"
| "fadd x y = (if x = y then x else NaN)"

fun fgt0 :: "pyfloat \<Rightarrow> bool" where
  \<comment> \<open>\<open>x > 0\<close>\<close>
  "fgt0 (Finite m e) = (0 < m)"
| "fgt0 PInf = True"
| "fgt0 _ = False"

definition float_of_int :: "int \<Rightarrow> error + pyfloat" where
  \<comment> \<open>the conversion Python applies to an int operand next to a float\<close>
  "float_of_int i =
     (let r = round64 (i < 0) (nat \<bar>i\<bar>) 1 0 in if is_inf r then Inl OverflowError else Inr r)"

definition int_truediv :: "int \<Rightarrow> int \<Rightarrow> error + pyfloat" where
  \<comment> \<open>\<open>a / b\<close> on two ints: the correctly rounded quotient\<close>
  "int_truediv a b =
     (if b = 0 then Inl ZeroDivisionError
      else let r = round64 ((a < 0) \<noteq> (b < 0)) (nat \<bar>a\<bar>) (nat \<bar>b\<bar>) 0
           in if is_inf r then Inl OverflowError else Inr r)"

definition int_of_float :: "pyfloat \<Rightarrow> error + int" where
  \<comment> \<open>\<open>int(x)\<close>: truncation towards zero\<close>
  "int_of_float x =
     (case x of
        Finite m e \<Rightarrow>
          Inr (if 0 \<le> e then m * 2 ^ nat e
               else (if m < 0 then - 1 else 1) * (\<bar>m\<bar> div 2 ^ nat (- e)))
      | NaN \<Rightarrow> Inl ValueError
      | _ \<Rightarrow> Inl OverflowError)"

definition round2 :: "pyfloat \<Rightarrow> pyfloat" where
  \<comment> \<open>\<open>round(x, 2)\<close> on a float: the exact value rounded to two decimals, a tie to the even
      digit, and the decimal result converted back to the nearest float\<close>
  "round2 x =
     (case x of
        Finite m e \<Rightarrow>
          round64 (m < 0) (half_even (scale2 (nat \<bar>m\<bar> * 100) e) (scale2 1 (- e))) 100 0
      | _ \<Rightarrow> x)"

subsection \<open>Decimal digits and \<open>float(text)\<close>\<close>

definition digit :: "char \<Rightarrow> bool" where
  "digit c = (c \<in> set ''0123456789'')"

definition digit_val :: "char \<Rightarrow> nat" where
  "digit_val c = of_char c - 48"

fun nat_of_digits :: "nat \<Rightarrow> string \<Rightarrow> nat" where
  "nat_of_digits acc [] = acc"
| "nat_of_digits acc (c # cs) = nat_of_digits (10 * acc + digit_val c) cs"

definition split_sign :: "string \<Rightarrow> bool \<times> string" where
  \<comment> \<open>one optional leading sign\<close>
  "split_sign s =
     (case s of
        c # cs \<Rightarrow> if c = CHR ''-'' then (True, cs) else if c = CHR ''+'' then (False, cs)
                  else (False, s)
      | [] \<Rightarrow> (False, s))"

definition exponent_of :: "string \<Rightarrow> error + int" where
  \<comment> \<open>the text after the mantissa: nothing, or \<open>e\<close>, an optional sign and at least one digit\<close>
  "exponent_of s =
     (case s of
        [] \<Rightarrow> Inr 0
      | c # cs \<Rightarrow>
          if c = CHR ''e'' \<or> c = CHR ''E'' then
            (case split_sign cs of
               (neg, ds) \<Rightarrow>
                 if ds \<noteq> [] \<and> list_all digit ds
                 then Inr ((if neg then - 1 else 1) * int (nat_of_digits 0 ds))
                 else Inl ValueError)
          else Inl ValueError)"

definition py_float :: "string \<Rightarrow> error + pyfloat" where
  \<comment> \<open>\<open>float(value)\<close> on text without blanks, underscores and the words \<open>inf\<close> and
      \<open>nan\<close> (the pattern's second group has none of them): an optional sign, digits with
      an optional point, at least one digit, an optional exponent; the decimal value is
      rounded to the nearest float. Anything else raises \<open>ValueError\<close>.\<close>
  "py_float value =
     (case split_sign value of
        (neg, s) \<Rightarrow>
          let ip = takeWhile digit s; r1 = dropWhile digit s;
              has_point = (r1 \<noteq> [] \<and> hd r1 = CHR ''.'');
              fp = (if has_point then takeWhile digit (tl r1) else []);
              r2 = (if has_point then dropWhile digit (tl r1) else r1)
          in if ip = [] \<and> fp = [] then Inl ValueError
             else case exponent_of r2 of
                 Inl err \<Rightarrow> Inl err
               | Inr ex \<Rightarrow>
                   let k = ex - int (length fp); mant = nat_of_digits 0 (ip @ fp)
                   in Inr (if 0 \<le> k then round64 neg (mant * 10 ^ nat k) 1 0
                           else round64 neg mant (10 ^ nat (- k)) 0))"

subsection \<open>Dictionaries\<close>

text \<open>
  A Python dict keeps its keys in insertion order, and storing under a key that is present
  replaces the value where the key already stands. The report lists the databases in the
  order of such a dict, so a dict is an association list with distinct keys.
\<close>

type_synonym ('k, 'v) dict = "('k \<times> 'v) list"

fun dict_set :: "'k \<Rightarrow> 'v \<Rightarrow> ('k, 'v) dict \<Rightarrow> ('k, 'v) dict" where
  "dict_set k v [] = [(k, v)]"
| "dict_set k v ((k', v') # d) = (if k' = k then (k, v) # d else (k', v') # dict_set k v d)"

definition dict_get :: "('k, 'v) dict \<Rightarrow> 'k \<Rightarrow> 'v option" where
  "dict_get d k = map_of d k"

definition keys :: "('k, 'v) dict \<Rightarrow> 'k list" where
  "keys d = map fst d"

section \<open>The metrics pattern\<close>

text \<open>
  \<open>parse_metrics\<close> compiles
  \<^verbatim>\<open>rf'{metric_name}\{{.*?bdb="(\d+)",.*?\}}\s+([\d.e+-]+)'\<close>
  and calls \<open>findall\<close>. The pattern is a sequence of literal characters, two lazy
  \<open>.*?\<close>, and three greedy \<open>+\<close> over a character class, two of them captured. The
  matcher below is the backtracking matcher of \<open>re\<close> for such sequences: it tries the
  alternatives in the order \<open>re\<close> does and returns the first complete match.

  Texts are lists of 8-bit characters; on them \<open>\d\<close> is \<open>0-9\<close>, \<open>\s\<close> is the white space
  of \<open>str.isspace\<close> below code 256, and \<open>.\<close> is every character but the line feed.
\<close>

datatype cls = AnyChar | DigitChar | SpaceChar | NumChar

definition newline :: char where
  "newline = CHR 0x0A"

fun in_cls :: "cls \<Rightarrow> char \<Rightarrow> bool" where
  "in_cls AnyChar c = (c \<noteq> newline)"
| "in_cls DigitChar c = digit c"
| "in_cls SpaceChar c = (of_char c \<in> {9, 10, 11, 12, 13, 28, 29, 30, 31, 32, 133, 160 :: nat})"
| "in_cls NumChar c = (digit c \<or> c \<in> set ''.e+-'')"

datatype item =
    Lit char          \<comment> \<open>one literal character\<close>
  | LazyStar cls      \<comment> \<open>\<open>X*?\<close>\<close>
  | Plus bool cls     \<comment> \<open>\<open>X+\<close>, captured as a group when the flag is set\<close>

text \<open>
  \<open>match_here p s\<close> matches the items \<open>p\<close> at the start of \<open>s\<close> and returns the groups
  and the text left after the match. \<open>X*?\<close> first tries the rest of the pattern and takes
  one more character only when that fails; \<open>X+\<close> takes the longest run and gives
  characters back one at a time (\<open>give_back\<close>) while the rest of the pattern fails.
\<close>

function match_here :: "item list \<Rightarrow> string \<Rightarrow> (string list \<times> string) option"
  and give_back :: "bool \<Rightarrow> item list \<Rightarrow> string \<Rightarrow> nat \<Rightarrow> (string list \<times> string) option"
where
  "match_here [] s = Some ([], s)"
| "match_here (Lit c # p) s =
     (case s of [] \<Rightarrow> None | x # xs \<Rightarrow> if x = c then match_here p xs else None)"
| "match_here (LazyStar k # p) s =
     (case match_here p s of
        Some r \<Rightarrow> Some r
      | None \<Rightarrow>
          (case s of
             [] \<Rightarrow> None
           | x # xs \<Rightarrow> if in_cls k x then match_here (LazyStar k # p) xs else None))"
| "match_here (Plus cap k # p) s = give_back cap p s (length (takeWhile (in_cls k) s))"
| "give_back cap p s 0 = None"
| "give_back cap p s (Suc n) =
     (case match_here p (drop (Suc n) s) of
        Some (groups, rest) \<Rightarrow> Some ((if cap then take (Suc n) s # groups else groups), rest)
      | None \<Rightarrow> give_back cap p s n)"
  by pat_completeness auto
termination
  by (relation "inv_image (less_than <*lex*> less_than <*lex*> less_than)
        (\<lambda>a. case a of
            Inl (p, s) \<Rightarrow> (length s, 2 * length p, 0)
          | Inr (cap, p, s, n) \<Rightarrow> (length s, 2 * length p + 1, n))")
     (auto simp: less_Suc_eq_le le_less)

text \<open>
  \<open>findall\<close> scans from left to right: where the pattern matches, the groups are recorded
  and the scan goes on after the match; elsewhere it moves one character on. (A match of
  this pattern is never empty; the second branch only makes the function total.)
\<close>

function findall :: "item list \<Rightarrow> string \<Rightarrow> string list list" where
  "findall p s =
     (case match_here p s of
        Some (groups, rest) \<Rightarrow>
          if length rest < length s then groups # findall p rest
          else groups # (case s of [] \<Rightarrow> [] | _ # xs \<Rightarrow> findall p xs)
      | None \<Rightarrow> (case s of [] \<Rightarrow> [] | _ # xs \<Rightarrow> findall p xs))"
  by pat_completeness auto
termination
  by (relation "measure (\<lambda>(p, s). length s)") auto

declare findall.simps [simp del]

definition pattern :: "string \<Rightarrow> item list" where
  \<comment> \<open>the metric name stands in the pattern as it is; it is read as literal characters,
      which is what \<open>re\<close> does for the names the program passes (letters and \<open>_\<close>)\<close>
  \<open>pattern metric_name =
     map Lit metric_name @ [Lit CHR ''{'', LazyStar AnyChar] @ map Lit ''bdb="'' @
     [Plus True DigitChar] @ map Lit ''",'' @ [LazyStar AnyChar, Lit CHR ''}'',
      Plus False SpaceChar, Plus True NumChar]\<close>

text \<open>
  The dict comprehension \<open>{db: float(value) for db, value in matches}\<close>: the matches in
  order, each unpacked into its two groups, \<open>float\<close> raising \<open>ValueError\<close> on text it
  does not accept.
\<close>

fun comprehension :: "(string, pyfloat) dict \<Rightarrow> string list list \<Rightarrow> error + (string, pyfloat) dict" where
  "comprehension d [] = Inr d"
| "comprehension d (g # gs) =
     (case g of
        [db, value] \<Rightarrow>
          (case py_float value of
             Inl err \<Rightarrow> Inl err
           | Inr v \<Rightarrow> comprehension (dict_set db v d) gs)
      | _ \<Rightarrow> Inl ValueError)"

definition parse_metrics :: "string \<Rightarrow> string \<Rightarrow> error + (string, pyfloat) dict" where
  "parse_metrics data metric_name = comprehension [] (findall (pattern metric_name) data)"

section \<open>JSON values and the operators applied to them\<close>

text \<open>
  \<open>response.json()\<close> returns Python values: \<open>None\<close>, booleans, ints, floats, strings,
  lists, and dicts with string keys. The program applies \<open>.get\<close>, \<open>[...]\<close>, \<open>+\<close>, \<open>/\<close>,
  \<open>*\<close>, \<open>>\<close>, \<open>str\<close> and a format specification to them without checking their types;
  each operator below raises what Python raises on operands it does not take.
\<close>

datatype json =
    JNull | JBool bool | JInt int | JFloat pyfloat | JStr string
  | JArr "json list" | JObj "(string \<times> json) list"

definition then_do :: "error + 'a \<Rightarrow> ('a \<Rightarrow> error + 'b) \<Rightarrow> error + 'b" where
  \<comment> \<open>sequencing: an exception of the first statement skips the rest\<close>
  "then_do r f = (case r of Inl e \<Rightarrow> Inl e | Inr v \<Rightarrow> f v)"

fun as_number :: "json \<Rightarrow> (int + pyfloat) option" where
  "as_number (JInt i) = Some (Inl i)"
| "as_number (JBool b) = Some (Inl (if b then 1 else 0))"
| "as_number (JFloat x) = Some (Inr x)"
| "as_number _ = None"

definition to_float :: "int + pyfloat \<Rightarrow> error + pyfloat" where
  "to_float n = (case n of Inl i \<Rightarrow> float_of_int i | Inr x \<Rightarrow> Inr x)"

definition py_get :: "json \<Rightarrow> string \<Rightarrow> json \<Rightarrow> error + json" where
  \<comment> \<open>\<open>obj.get(key, default)\<close>\<close>
  "py_get obj key dflt =
     (case obj of
        JObj kvs \<Rightarrow> Inr (case map_of kvs key of Some v \<Rightarrow> v | None \<Rightarrow> dflt)
      | _ \<Rightarrow> Inl AttributeError)"

definition py_getitem :: "json \<Rightarrow> string \<Rightarrow> error + json" where
  \<comment> \<open>\<open>obj[key]\<close> with a string key\<close>
  "py_getitem obj key =
     (case obj of
        JObj kvs \<Rightarrow> (case map_of kvs key of Some v \<Rightarrow> Inr v | None \<Rightarrow> Inl (KeyError key))
      | _ \<Rightarrow> Inl TypeError)"

definition py_iter :: "json \<Rightarrow> error + json list" where
  \<comment> \<open>the values a \<open>for\<close> runs through: the elements of a list, the keys of a dict, the
      characters of a string\<close>
  "py_iter v =
     (case v of
        JArr xs \<Rightarrow> Inr xs
      | JObj kvs \<Rightarrow> Inr (map (\<lambda>kv. JStr (fst kv)) kvs)
      | JStr s \<Rightarrow> Inr (map (\<lambda>c. JStr [c]) s)
      | _ \<Rightarrow> Inl TypeError)"

definition py_add :: "json \<Rightarrow> json \<Rightarrow> error + json" where
  "py_add a b =
     (case (as_number a, as_number b) of
        (Some (Inl i), Some (Inl j)) \<Rightarrow> Inr (JInt (i + j))
      | (Some x, Some y) \<Rightarrow>
          then_do (to_float x) (\<lambda>fx. then_do (to_float y) (\<lambda>fy. Inr (JFloat (fadd fx fy))))
      | _ \<Rightarrow>
          (case (a, b) of
             (JStr s, JStr t) \<Rightarrow> Inr (JStr (s @ t))
           | (JArr xs, JArr ys) \<Rightarrow> Inr (JArr (xs @ ys))
           | _ \<Rightarrow> Inl TypeError))"

definition py_gt_zero :: "json \<Rightarrow> error + bool" where
  \<comment> \<open>\<open>v > 0\<close>\<close>
  "py_gt_zero v =
     (case as_number v of
        Some (Inl i) \<Rightarrow> Inr (0 < i)
      | Some (Inr x) \<Rightarrow> Inr (fgt0 x)
      | None \<Rightarrow> Inl TypeError)"

definition py_truediv :: "json \<Rightarrow> json \<Rightarrow> error + pyfloat" where
  \<comment> \<open>\<open>a / b\<close>: defined on numbers, and always a float\<close>
  "py_truediv a b =
     (case (as_number a, as_number b) of
        (Some (Inl i), Some (Inl j)) \<Rightarrow> int_truediv i j
      | (Some x, Some y) \<Rightarrow>
          then_do (to_float x) (\<lambda>fx. then_do (to_float y) (\<lambda>fy. fdiv fx fy))
      | _ \<Rightarrow> Inl TypeError)"

definition times_100 :: "pyfloat \<Rightarrow> error + pyfloat" where
  \<comment> \<open>\<open>x * 100\<close> for a float \<open>x\<close>: the int 100 becomes a float first\<close>
  "times_100 x = then_do (float_of_int 100) (\<lambda>h. Inr (fmul x h))"

definition format_2f :: "json \<Rightarrow> error + unit" where
  \<comment> \<open>\<open>f"{v:.2f}"\<close>: numbers are formatted; a string rejects the format code \<open>f\<close> with
      \<open>ValueError\<close>; \<open>None\<close>, lists and dicts take no format string at all. Only whether it
      raises is kept: the text goes to the log.\<close>
  "format_2f v =
     (case as_number v of
        Some n \<Rightarrow> then_do (to_float n) (\<lambda>_. Inr ())
      | None \<Rightarrow> (case v of JStr s \<Rightarrow> Inl ValueError | _ \<Rightarrow> Inl TypeError))"

text \<open>Decimal text of an int, for \<open>str(uid)\<close>.\<close>

function str_nat :: "nat \<Rightarrow> string" where
  "str_nat n =
     (if n < 10 then [''0123456789'' ! n] else str_nat (n div 10) @ [''0123456789'' ! (n mod 10)])"
  by pat_completeness auto
termination
  by (relation "measure id") auto

declare str_nat.simps [simp del]

definition str_int :: "int \<Rightarrow> string" where
  "str_int i = (if i < 0 then CHR ''-'' # str_nat (nat (- i)) else str_nat (nat i))"

definition py_str :: "(json \<Rightarrow> string) \<Rightarrow> json \<Rightarrow> string" where
  \<comment> \<open>\<open>str(v)\<close>. The text of a float, a list or a dict is their \<open>repr\<close>, which is not
      modelled: it is the parameter \<open>repr\<close>.\<close>
  "py_str repr v =
     (case v of
        JStr s \<Rightarrow> s
      | JInt i \<Rightarrow> str_int i
      | JBool b \<Rightarrow> (if b then ''True'' else ''False'')
      | JNull \<Rightarrow> ''None''
      | _ \<Rightarrow> repr v)"

section \<open>The license summary\<close>

record license_info =
  cluster_name :: json
  activation_date :: json
  expiration_date :: json
  expired :: json
  shards_limit :: json
  ram_shards_in_use :: json
  flash_shards_in_use :: json
  percentage_shards_used :: json

definition percent_shards_used :: "json \<Rightarrow> json \<Rightarrow> error + json" where
  \<comment> \<open>\<open>(total_shards_in_use / shards_limit) * 100 if shards_limit > 0 else "N/A"\<close>\<close>
  "percent_shards_used total_shards_in_use limit =
     then_do (py_gt_zero limit) (\<lambda>positive.
       if positive
       then then_do (py_truediv total_shards_in_use limit) (\<lambda>q. then_do (times_100 q) (\<lambda>p. Inr (JFloat p)))
       else Inr (JStr ''N/A''))"

definition fetch_license_data :: "error + json \<Rightarrow> error + license_info" where
  \<comment> \<open>the argument is what \<open>get_json_response(LICENSE_BASE_URL)\<close> gives: the parsed body,
      or the exception of the request. The \<open>logging.info\<close> lines build their text before
      they log it; the last one formats the percentage with \<open>:.2f\<close>.\<close>
  "fetch_license_data response =
     then_do response (\<lambda>license_data.
     then_do (py_get license_data ''cluster_name'' (JStr ''N/A'')) (\<lambda>cn.
     then_do (py_get license_data ''activation_date'' (JStr ''N/A'')) (\<lambda>ad.
     then_do (py_get license_data ''expiration_date'' (JStr ''N/A'')) (\<lambda>ed.
     then_do (py_get license_data ''expired'' (JStr ''N/A'')) (\<lambda>ex.
     then_do (py_get license_data ''shards_limit'' (JInt 0)) (\<lambda>sl.
     then_do (py_get license_data ''ram_shards_in_use'' (JInt 0)) (\<lambda>ram.
     then_do (py_get license_data ''flash_shards_in_use'' (JInt 0)) (\<lambda>flash.
     then_do (py_add ram flash) (\<lambda>total_shards_in_use.
     then_do (percent_shards_used total_shards_in_use sl) (\<lambda>pct.
     then_do (format_2f pct) (\<lambda>_.
       Inr \<lparr>cluster_name = cn, activation_date = ad, expiration_date = ed, expired = ex,
            shards_limit = sl, ram_shards_in_use = ram, flash_shards_in_use = flash,
            percentage_shards_used = pct\<rparr>)))))))))))"

section \<open>The inventory index\<close>

fun index_bdbs :: "(json \<Rightarrow> string) \<Rightarrow> (string, json) dict \<Rightarrow> json list \<Rightarrow> error + (string, json) dict" where
  \<comment> \<open>\<open>{str(bdb["uid"]): bdb for bdb in bdbs_data}\<close>, one record after the other\<close>
  "index_bdbs repr d [] = Inr d"
| "index_bdbs repr d (bdb # rest) =
     then_do (py_getitem bdb ''uid'') (\<lambda>uid. index_bdbs repr (dict_set (py_str repr uid) bdb d) rest)"

definition fetch_bdbs_data :: "(json \<Rightarrow> string) \<Rightarrow> error + json \<Rightarrow> error + (string, json) dict" where
  "fetch_bdbs_data repr response =
     then_do response (\<lambda>bdbs_data. then_do (py_iter bdbs_data) (index_bdbs repr []))"

section \<open>The report\<close>

record db_entry =
  database_id :: string
  bdb_name :: json
  shards_count :: json
  memory_used_mb :: pyfloat
  total_memory_mb :: pyfloat
  memory_usage_percentage :: json
  total_keys :: int

record report = license_info +
  databases :: "db_entry list"

definition table_get :: "(string, pyfloat) dict \<Rightarrow> string \<Rightarrow> int \<Rightarrow> json" where
  \<comment> \<open>\<open>table.get(db_id, default)\<close> with an int default\<close>
  "table_get t k dflt = (case dict_get t k of Some x \<Rightarrow> JFloat x | None \<Rightarrow> JInt dflt)"

definition py_int :: "json \<Rightarrow> error + int" where
  \<comment> \<open>\<open>int(v)\<close> on what \<open>table_get\<close> returns\<close>
  "py_int v = (case v of JFloat x \<Rightarrow> int_of_float x | JInt i \<Rightarrow> Inr i | _ \<Rightarrow> Inl TypeError)"

definition py_round2 :: "json \<Rightarrow> json" where
  \<comment> \<open>\<open>round(v, 2)\<close>: an int stays as it is\<close>
  "py_round2 v = (case v of JFloat x \<Rightarrow> JFloat (round2 x) | _ \<Rightarrow> v)"

definition lookup_bdb :: "(string, json) dict \<Rightarrow> string \<Rightarrow> string \<Rightarrow> error + json" where
  \<comment> \<open>\<open>bdbs_mapping.get(db_id, {}).get(field, "N/A")\<close>\<close>
  "lookup_bdb bdbs_mapping db_id field =
     py_get (case dict_get bdbs_mapping db_id of Some bdb \<Rightarrow> bdb | None \<Rightarrow> JObj [])
       field (JStr ''N/A'')"

definition database_entry ::
  "(string, json) dict \<Rightarrow> (string, pyfloat) dict \<Rightarrow> (string, pyfloat) dict \<Rightarrow>
   (string, pyfloat) dict \<Rightarrow> string \<Rightarrow> error + db_entry" where
  \<comment> \<open>the body of the loop in \<open>main\<close> for one \<open>db_id\<close>\<close>
  "database_entry bdbs_mapping used_memory memory_limit total_keys_data db_id =
     then_do (lookup_bdb bdbs_mapping db_id ''name'') (\<lambda>name.
     then_do (lookup_bdb bdbs_mapping db_id ''shards_count'') (\<lambda>shards.
     then_do (py_truediv (table_get used_memory db_id 0) (JInt (1024 * 1024))) (\<lambda>used_mb.
     then_do (py_truediv (table_get memory_limit db_id 1) (JInt (1024 * 1024))) (\<lambda>total_mb.
     then_do (py_int (table_get total_keys_data db_id 0)) (\<lambda>nkeys.
     then_do (if fgt0 total_mb
              then then_do (fdiv used_mb total_mb) (\<lambda>q.
                   then_do (times_100 q) (\<lambda>p. Inr (JFloat p)))
              else Inr (JInt 0)) (\<lambda>percent_memory_used.
     then_do (format_2f (JFloat used_mb)) (\<lambda>_.
     then_do (format_2f (JFloat total_mb)) (\<lambda>_.
     then_do (format_2f percent_memory_used) (\<lambda>_.
       Inr \<lparr>database_id = db_id, bdb_name = name, shards_count = shards,
            memory_used_mb = used_mb, total_memory_mb = total_mb,
            memory_usage_percentage = py_round2 percent_memory_used,
            total_keys = nkeys\<rparr>)))))))))"

fun database_loop ::
  "(string, json) dict \<Rightarrow> (string, pyfloat) dict \<Rightarrow> (string, pyfloat) dict \<Rightarrow>
   (string, pyfloat) dict \<Rightarrow> db_entry list \<Rightarrow> string list \<Rightarrow> error + db_entry list" where
  \<comment> \<open>\<open>for db_id, metrics in used_memory.items(): ... database_list.append(...)\<close>\<close>
  "database_loop bdbs used lim tk database_list [] = Inr database_list"
| "database_loop bdbs used lim tk database_list (db_id # rest) =
     then_do (database_entry bdbs used lim tk db_id) (\<lambda>entry.
       database_loop bdbs used lim tk (database_list @ [entry]) rest)"

definition build_databases ::
  "(string, json) dict \<Rightarrow> (string, pyfloat) dict \<Rightarrow> (string, pyfloat) dict \<Rightarrow>
   (string, pyfloat) dict \<Rightarrow> error + db_entry list" where
  "build_databases bdbs_mapping used_memory memory_limit total_keys_data =
     database_loop bdbs_mapping used_memory memory_limit total_keys_data [] (keys used_memory)"

definition run :: "(json \<Rightarrow> string) \<Rightarrow> error + json \<Rightarrow> error + json \<Rightarrow> error + string \<Rightarrow> error + report" where
  \<comment> \<open>the \<open>try\<close> block of \<open>main\<close>, up to the value handed to \<open>json.dumps\<close>. The three
      arguments are the outcomes of the three requests, in the order they are made.\<close>
  "run repr license_response bdbs_response metrics_text =
     then_do (fetch_license_data license_response) (\<lambda>license_info.
     then_do (fetch_bdbs_data repr bdbs_response) (\<lambda>bdbs_mapping.
     then_do metrics_text (\<lambda>metrics_response.
     then_do (parse_metrics metrics_response ''bdb_used_memory'') (\<lambda>used_memory.
     then_do (parse_metrics metrics_response ''bdb_memory_limit'') (\<lambda>memory_limit.
     then_do (parse_metrics metrics_response ''redis_db_keys'') (\<lambda>total_keys_data.
     then_do (build_databases bdbs_mapping used_memory memory_limit total_keys_data)
       (\<lambda>database_list. Inr (license_info.extend license_info
                                (report.fields database_list)))))))))"

definition main :: "(json \<Rightarrow> string) \<Rightarrow> error + json \<Rightarrow> error + json \<Rightarrow> error + string \<Rightarrow> report option" where
  \<comment> \<open>what \<open>main\<close> prints on standard output: the report, or nothing when the \<open>try\<close>
      block raised (the handler logs the error and returns)\<close>
  "main repr license_response bdbs_response metrics_text =
     (case run repr license_response bdbs_response metrics_text of
        Inl e \<Rightarrow> None
      | Inr output_json \<Rightarrow> Some output_json)"

fun is_object :: "json \<Rightarrow> bool" where
  "is_object (JObj kvs) = True"
| "is_object _ = False"

section \<open>The shape of a sample line\<close>











section \<open>Evaluation and sequencing lemmas\<close>

lemmas float_ev =
  round64_def floor_log2_def half_even_def scale2_def finite_of_def lowest.simps
  bit_length.simps float_of_int_def int_truediv_def Let_def round2_def int_of_float_def
  signed_inf_def

lemmas text_ev =
  py_float_def split_sign_def exponent_of_def digit_def digit_val_def newline_def

lemmas parse_ev = parse_metrics_def pattern_def findall.simps

lemmas json_ev =
  py_get_def py_getitem_def py_iter_def py_add_def py_gt_zero_def py_truediv_def
  times_100_def format_2f_def to_float_def py_str_def str_int_def str_nat.simps
  table_get_def py_int_def py_round2_def lookup_bdb_def dict_get_def keys_def

lemmas report_ev =
  fetch_license_data_def percent_shards_used_def fetch_bdbs_data_def database_entry_def
  build_databases_def run_def main_def

lemma then_do_Inr: "then_do r f = Inr v \<longleftrightarrow> (\<exists>x. r = Inr x \<and> f x = Inr v)"
  by (cases r) (simp_all add: then_do_def)

lemma then_do_Inl [simp]: "then_do (Inl e) f = Inl e"
  by (simp add: then_do_def)

lemma then_do_Inr_arg [simp]: "then_do (Inr x) f = f x"
  by (simp add: then_do_def)



section \<open>The databases of the report\<close>

lemma database_entry_id:
  "database_entry bdbs um ml tk k = Inr e \<Longrightarrow> database_id e = k"
  by (auto simp: database_entry_def then_do_Inr)

lemma database_loop_ids:
  "database_loop bdbs um ml tk acc ks = Inr es \<Longrightarrow> map database_id es = map database_id acc @ ks"
proof (induction ks arbitrary: acc)
  case Nil
  then show ?case by simp
next
  case (Cons k ks)
  from Cons.prems obtain e where e: "database_entry bdbs um ml tk k = Inr e"
    and rest: "database_loop bdbs um ml tk (acc @ [e]) ks = Inr es"
    by (auto simp: then_do_Inr)
  from Cons.IH [OF rest] database_entry_id [OF e] show ?case by simp
qed


lemma keys_dict_get: "k \<in> set (keys d) \<longleftrightarrow> dict_get d k \<noteq> None"
  by (simp add: keys_def dict_get_def map_of_eq_None_iff)



lemma example_tables:
  "build_databases [] [(''1'', Finite 25 21), (''2'', Finite 1 20)] [(''1'', Finite 25 22)] []
   = Inr [\<lparr>database_id = ''1'', bdb_name = JStr ''N/A'', shards_count = JStr ''N/A'',
            memory_used_mb = Finite 25 1, total_memory_mb = Finite 25 2,
            memory_usage_percentage = JFloat (Finite 25 1), total_keys = 0\<rparr>,
          \<lparr>database_id = ''2'', bdb_name = JStr ''N/A'', shards_count = JStr ''N/A'',
            memory_used_mb = Finite 1 0, total_memory_mb = Finite 1 (- 20),
            memory_usage_percentage = JFloat (Finite 25 22), total_keys = 0\<rparr>]"
  by (simp add: report_ev json_ev float_ev)

text \<open>
  Claim C5. The builder makes one entry per key of the used-memory table, in the table's
  order: every \<open>database_id\<close> of the report is a key of \<open>used_memory\<close>, and an id that
  \<open>used_memory\<close> does not have is in no entry, whatever the memory-limit table, the key-count
  table and the inventory hold.
\<close>

theorem report_ids_are_used_memory_keys:
  assumes "build_databases bdbs_mapping used_memory memory_limit total_keys_data = Inr database_list"
  shows "map database_id database_list = keys used_memory
       \<and> (\<forall>e \<in> set database_list. dict_get used_memory (database_id e) \<noteq> None)
       \<and> (\<forall>k. dict_get used_memory k = None \<longrightarrow> k \<notin> database_id ` set database_list)"
proof -
  have ids: "map database_id database_list = keys used_memory"
    using database_loop_ids [of _ _ _ _ "[]"] assms by (simp add: build_databases_def)
  then have "database_id ` set database_list = set (keys used_memory)"
    by (metis set_map)
  with ids show ?thesis by (auto simp: keys_dict_get)
qed

theorem report_ids_are_used_memory_keys_witness:
  "map database_id
     [\<lparr>database_id = ''1'', bdb_name = JStr ''N/A'', shards_count = JStr ''N/A'',
       memory_used_mb = Finite 25 1, total_memory_mb = Finite 25 2,
       memory_usage_percentage = JFloat (Finite 25 1), total_keys = 0\<rparr>,
      \<lparr>database_id = ''2'', bdb_name = JStr ''N/A'', shards_count = JStr ''N/A'',
       memory_used_mb = Finite 1 0, total_memory_mb = Finite 1 (- 20),
       memory_usage_percentage = JFloat (Finite 25 22), total_keys = 0\<rparr>]
   = keys [(''1'', Finite 25 21), (''2'', Finite 1 20)]"
  using report_ids_are_used_memory_keys [OF example_tables] by blast



text \<open>
  Claim C7. The example of the specification: used memory 52428800.0 (\<open>Finite 25 21\<close>), a
  limit of 104857600.0 (\<open>Finite 25 22\<close>), 1000.0 keys (\<open>Finite 125 3\<close>) and the inventory
  record \<open>{"uid": 1, "name": "mydb", "shards_count": 2}\<close> give exactly one entry, with
  50.0 MB used (\<open>Finite 25 1\<close>) of 100.0 MB (\<open>Finite 25 2\<close>), 50.0 percent and 1000 keys.
\<close>

theorem end_to_end_example:
  "float_of_int 52428800 = Inr (Finite 25 21)
   \<and> float_of_int 104857600 = Inr (Finite 25 22)
   \<and> float_of_int 1000 = Inr (Finite 125 3)
   \<and> float_of_int 50 = Inr (Finite 25 1)
   \<and> float_of_int 100 = Inr (Finite 25 2)
   \<and> then_do
        (fetch_bdbs_data repr
           (Inr (JArr [JObj [(''uid'', JInt 1), (''name'', JStr ''mydb''),
                             (''shards_count'', JInt 2)]])))
        (\<lambda>bdbs_mapping.
           build_databases bdbs_mapping
             [(''1'', Finite 25 21)] [(''1'', Finite 25 22)] [(''1'', Finite 125 3)])
     = Inr [\<lparr>database_id = ''1'', bdb_name = JStr ''mydb'', shards_count = JInt 2,
              memory_used_mb = Finite 25 1, total_memory_mb = Finite 25 2,
              memory_usage_percentage = JFloat (Finite 25 1), total_keys = 1000\<rparr>]"
  by (simp add: report_ev json_ev float_ev)

section \<open>The license summary\<close>

text \<open>
  Claim C8. The summary of a license without a positive \<open>shards_limit\<close> is never returned:
  the percentage is the string \<open>"N/A"\<close>, and the log line
  \<open>f"Percentage of Shards Used: {percent_shards_used:.2f}%"\<close> formats it with \<open>.2f\<close>, which
  raises \<open>ValueError\<close> on a string. Both examples of the specification raise; with a positive
  limit the summary is returned and the percentage is \<open>(3 + 2) / 10 * 100 = 50.0\<close>.
\<close>

theorem license_without_limit_raises:
  "percent_shards_used (JInt 0) (JInt 0) = Inr (JStr ''N/A'')
   \<and> fetch_license_data (Inr (JObj [])) = Inl ValueError
   \<and> fetch_license_data (Inr (JObj [(''shards_limit'', JInt 0), (''ram_shards_in_use'', JInt 5)]))
       = Inl ValueError
   \<and> fetch_license_data
        (Inr (JObj [(''shards_limit'', JInt 10), (''ram_shards_in_use'', JInt 3),
                    (''flash_shards_in_use'', JInt 2)]))
       = Inr \<lparr>cluster_name = JStr ''N/A'', activation_date = JStr ''N/A'',
               expiration_date = JStr ''N/A'', expired = JStr ''N/A'',
               shards_limit = JInt 10, ram_shards_in_use = JInt 3,
               flash_shards_in_use = JInt 2,
               percentage_shards_used = JFloat (Finite 25 1)\<rparr>"
  by (simp add: report_ev json_ev float_ev)

section \<open>Failures of the poll\<close>



lemma index_bdbs_without_uid:
  assumes "JObj r \<in> set records" "map_of r ''uid'' = None"
  shows "isl (index_bdbs repr d records)"
  using assms
proof (induction records arbitrary: d)
  case Nil
  then show ?case by simp
next
  case (Cons bdb rest)
  show ?case
  proof (cases "py_getitem bdb ''uid''")
    case (Inl err)
    then show ?thesis by simp
  next
    case (Inr uid)
    with Cons.prems have "JObj r \<in> set rest"
      by (auto simp: py_getitem_def)
    from Cons.IH [OF this Cons.prems(2)] Inr show ?thesis by simp
  qed
qed

lemma index_bdbs_key_error:
  assumes "JObj r \<in> set records" "map_of r ''uid'' = None" "list_all is_object records"
  shows "index_bdbs repr d records = Inl (KeyError ''uid'')"
  using assms
proof (induction records arbitrary: d)
  case Nil
  then show ?case by simp
next
  case (Cons bdb rest)
  from Cons.prems(3) obtain kvs where bdb: "bdb = JObj kvs"
    by (cases bdb) simp_all
  show ?case
  proof (cases "map_of kvs ''uid''")
    case None
    then show ?thesis by (simp add: bdb py_getitem_def)
  next
    case (Some uid)
    with Cons.prems bdb have "JObj r \<in> set rest" "list_all is_object rest"
      by auto
    from Cons.IH [OF this(1) Cons.prems(2) this(2)] Some show ?thesis
      by (simp add: bdb py_getitem_def)
  qed
qed

text \<open>
  Claim C10. A record of the inventory array without \<open>"uid"\<close> makes the index raise: the
  comprehension evaluates \<open>bdb["uid"]\<close> on every record and skips none. When all records are
  objects the exception is \<open>KeyError('uid')\<close>. \<open>main\<close> then prints nothing.
\<close>

theorem record_without_uid_is_fatal:
  assumes "JObj r \<in> set records" and "map_of r ''uid'' = None"
  shows "isl (fetch_bdbs_data repr (Inr (JArr records)))
       \<and> (list_all is_object records \<longrightarrow>
            fetch_bdbs_data repr (Inr (JArr records)) = Inl (KeyError ''uid''))
       \<and> main repr license_response (Inr (JArr records)) metrics_text = None"
proof -
  have raised: "isl (fetch_bdbs_data repr (Inr (JArr records)))"
    using index_bdbs_without_uid [OF assms] by (simp add: fetch_bdbs_data_def py_iter_def)
  have key: "list_all is_object records \<Longrightarrow>
      fetch_bdbs_data repr (Inr (JArr records)) = Inl (KeyError ''uid'')"
    using index_bdbs_key_error [OF assms] by (simp add: fetch_bdbs_data_def py_iter_def)
  have "isl (run repr license_response (Inr (JArr records)) metrics_text)"
    using raised
    by (cases "fetch_license_data license_response";
        cases "fetch_bdbs_data repr (Inr (JArr records))")
       (simp_all add: run_def)
  then have "main repr license_response (Inr (JArr records)) metrics_text = None"
    by (auto simp: main_def split: sum.splits)
  with raised key show ?thesis by simp
qed

theorem record_without_uid_is_fatal_witness:
  "fetch_bdbs_data (\<lambda>v. [])
     (Inr (JArr [JObj [(''uid'', JInt 1)], JObj [(''name'', JStr ''mydb'')]]))
   = Inl (KeyError ''uid'')
   \<and> main (\<lambda>v. []) (Inr (JObj [(''shards_limit'', JInt 10)]))
       (Inr (JArr [JObj [(''uid'', JInt 1)], JObj [(''name'', JStr ''mydb'')]])) (Inr [])
     = None"
proof -
  have h1: "JObj [(''name'', JStr ''mydb'')]
            \<in> set [JObj [(''uid'', JInt 1)], JObj [(''name'', JStr ''mydb'')]]"
    by simp
  have h2: "map_of [(''name'', JStr ''mydb'')] ''uid'' = None"
    by simp
  show ?thesis
    using record_without_uid_is_fatal [OF h1 h2, of "\<lambda>v. []"] by simp
qed

section \<open>The metrics parser\<close>

subsection \<open>Matching and scanning\<close>























lemma dict_get_set: "dict_get (dict_set k v d) k' = (if k' = k then Some v else dict_get d k')"
  by (induction d) (auto simp: dict_get_def)

lemma comprehension_shape:
  "(\<exists>db val. g = [db, val]) \<or> (\<forall>d gs. comprehension d (g # gs) = Inl ValueError)"
  by (cases g rule: list.exhaust; simp; cases "tl g" rule: list.exhaust; simp;
      cases "tl (tl g)" rule: list.exhaust; simp)

lemma comprehension_Cons_Inr:
  assumes "comprehension d (g # gs) = Inr d'"
  obtains db val v where "g = [db, val]" "py_float val = Inr v"
    "comprehension (dict_set db v d) gs = Inr d'"
proof -
  from comprehension_shape [of g] assms obtain db val where g: "g = [db, val]"
    by auto
  with assms obtain v where "py_float val = Inr v" "comprehension (dict_set db v d) gs = Inr d'"
    by (cases "py_float val") simp_all
  with g that show ?thesis by blast
qed

lemma comprehension_append:
  "comprehension d (gs @ hs) = then_do (comprehension d gs) (\<lambda>d'. comprehension d' hs)"
proof (induction gs arbitrary: d)
  case Nil
  then show ?case by (simp add: then_do_def)
next
  case (Cons g gs)
  from comprehension_shape [of g] show ?case
  proof
    assume "\<exists>db val. g = [db, val]"
    then obtain db val where g: "g = [db, val]" by auto
    show ?thesis
      by (cases "py_float val") (simp_all add: g Cons.IH then_do_def)
  next
    assume "\<forall>d gs. comprehension d (g # gs) = Inl ValueError"
    then have "comprehension d (g # gs @ hs) = Inl ValueError" "comprehension d (g # gs) = Inl ValueError"
      by blast+
    then show ?thesis by (simp add: then_do_def)
  qed
qed

lemma comprehension_keeps:
  "comprehension d gs = Inr d' \<Longrightarrow> \<forall>g \<in> set gs. hd g \<noteq> k \<Longrightarrow> dict_get d' k = dict_get d k"
proof (induction gs arbitrary: d)
  case Nil
  then show ?case by simp
next
  case (Cons g gs)
  from Cons.prems(1) obtain db val v where g: "g = [db, val]" and v: "py_float val = Inr v"
    and rest: "comprehension (dict_set db v d) gs = Inr d'"
    by (rule comprehension_Cons_Inr)
  from Cons.prems(2) g have "db \<noteq> k" by simp
  with Cons.IH [OF rest] Cons.prems(2) show ?case by (simp add: dict_get_set)
qed

lemma comprehension_last_wins:
  assumes "comprehension d (gs @ [k, val] # hs) = Inr d'" "\<forall>g \<in> set hs. hd g \<noteq> k"
  shows "\<exists>v. py_float val = Inr v \<and> dict_get d' k = Some v"
proof -
  from assms(1) obtain d1 where d1: "comprehension d gs = Inr d1"
    and r: "comprehension d1 ([k, val] # hs) = Inr d'"
    by (cases "comprehension d gs") (simp_all add: comprehension_append then_do_def)
  from r obtain v where v: "py_float val = Inr v"
    and rest: "comprehension (dict_set k v d1) hs = Inr d'"
    by (cases "py_float val") simp_all
  from comprehension_keeps [OF rest assms(2)] v show ?thesis
    by (simp add: dict_get_set)
qed














subsection \<open>What \<open>parse_metrics\<close> returns\<close>








text \<open>
  Claim C3, as the code has it. The table holds, for an id, the value of the last match with
  that id; \<open>m{bdb="1",} 5\<close> followed by \<open>m{bdb="1",} 7\<close> gives exactly \<open>{"1": 7.0}\<close>
  (\<open>Finite 7 0\<close> is 7.0).
\<close>

theorem last_occurrence_wins:
  \<open>(\<forall>gs k val hs table.
      findall (pattern name) text = gs @ [k, val] # hs \<longrightarrow> (\<forall>g \<in> set hs. hd g \<noteq> k) \<longrightarrow>
      parse_metrics text name = Inr table \<longrightarrow>
      (\<exists>v. py_float val = Inr v \<and> dict_get table k = Some v))
   \<and> parse_metrics (''m{bdb="1",} 5'' @ [newline] @ ''m{bdb="1",} 7'') ''m''
     = Inr [(''1'', Finite 7 0)]\<close>
proof -
  have \<open>parse_metrics (''m{bdb="1",} 5'' @ [newline] @ ''m{bdb="1",} 7'') ''m''
     = Inr [(''1'', Finite 7 0)]\<close>
    by (simp add: parse_ev text_ev float_ev)
  then show ?thesis
    using comprehension_last_wins [of "[]"] by (auto simp: parse_metrics_def)
qed

theorem last_occurrence_wins_witness:
  \<open>findall (pattern ''m'') (''m{bdb="1",} 5'' @ [newline] @ ''m{bdb="1",} 7'')
     = [[''1'', ''5'']] @ [''1'', ''7''] # []
   \<and> (\<exists>v. py_float ''7'' = Inr v \<and> dict_get [(''1'', Finite 7 0)] ''1'' = Some v)\<close>
proof -
  let ?text = \<open>''m{bdb="1",} 5'' @ [newline] @ ''m{bdb="1",} 7''\<close>
  have h1: \<open>findall (pattern ''m'') ?text = [[''1'', ''5'']] @ [''1'', ''7''] # []\<close>
    by (simp add: parse_ev text_ev)
  have h2: "\<forall>g \<in> set ([] :: string list list). hd g \<noteq> ''1''"
    by simp
  have h3: \<open>parse_metrics ?text ''m'' = Inr [(''1'', Finite 7 0)]\<close>
    by (simp add: parse_ev text_ev float_ev)
  from last_occurrence_wins [of "''m''" ?text] h1 h2 h3
  have \<open>\<exists>v. py_float ''7'' = Inr v \<and> dict_get [(''1'', Finite 7 0)] ''1'' = Some v\<close>
    by blast
  with h1 show ?thesis by blast
qed

theorem missing_comma_counterexample:
  \<open>parse_metrics (''m{bdb="1"} 5'' @ [newline] @ ''m{bdb="1"} 7'') ''m'' = Inr []\<close>
  by (simp add: parse_ev text_ev)




end
